theory Spec2Isabelle
  imports Complex_Main "HOL-Library.AList"
begin

section \<open>JavaScript values\<close>

text \<open>
  The requests and the policy are plain JavaScript data. Numbers are kept as an
  abstraction of IEEE doubles that is exact for the three questions the code asks of a
  number: is it \<open>NaN\<close>, is it greater than zero, is it falsy. An object is the list of
  its own properties in enumeration order (the order of \<open>Object.keys\<close>).
\<close>

datatype jsnum = NaN | NegInf | PosInf | Fin rat

datatype jsval =
    JUndefined
  | JNull
  | JBool bool
  | JNum jsnum
  | JStr string
  | JArr "jsval list"
  | JObj "(string \<times> jsval) list"

type_synonym jsobject = "(string \<times> jsval) list"

text \<open>Truthiness, as tested by \<open>if (x)\<close>, \<open>!x\<close> and \<open>x ? a : b\<close>.\<close>

fun truthy :: "jsval \<Rightarrow> bool" where
  "truthy JUndefined = False"
| "truthy JNull = False"
| "truthy (JBool b) = b"
| "truthy (JNum NaN) = False"
| "truthy (JNum (Fin q)) = (q \<noteq> 0)"
| "truthy (JNum NegInf) = True"
| "truthy (JNum PosInf) = True"
| "truthy (JStr s) = (s \<noteq> [])"
| "truthy (JArr xs) = True"
| "truthy (JObj kvs) = True"

text \<open>
  \<open>ToNumber\<close>: fixed by the language on undefined, null, booleans and numbers. On
  strings, arrays and objects it parses text (after \<open>ToPrimitive\<close>); that part of the
  language is left as the parameter \<open>co\<close>, so that every theorem below holds whatever
  the parse yields.
\<close>

type_synonym coercion = "jsval \<Rightarrow> jsnum"

fun ToNumber :: "coercion \<Rightarrow> jsval \<Rightarrow> jsnum" where
  "ToNumber co JUndefined = NaN"
| "ToNumber co JNull = Fin 0"
| "ToNumber co (JBool b) = Fin (if b then 1 else 0)"
| "ToNumber co (JNum n) = n"
| "ToNumber co (JStr s) = co (JStr s)"
| "ToNumber co (JArr xs) = co (JArr xs)"
| "ToNumber co (JObj kvs) = co (JObj kvs)"

definition isNaN :: "coercion \<Rightarrow> jsval \<Rightarrow> bool" where
  "isNaN co v = (ToNumber co v = NaN)"

text \<open>The comparison \<open>v > 0\<close>.\<close>

definition js_gt_zero :: "coercion \<Rightarrow> jsval \<Rightarrow> bool" where
  "js_gt_zero co v =
     (case ToNumber co v of NaN \<Rightarrow> False | NegInf \<Rightarrow> False | PosInf \<Rightarrow> True | Fin q \<Rightarrow> 0 < q)"

fun isArray :: "jsval \<Rightarrow> bool" where
  "isArray (JArr xs) = True"
| "isArray v = False"

text \<open>\<open>obj[k]\<close> on a plain object: the property's value, or undefined.\<close>

definition obj_get :: "jsobject \<Rightarrow> string \<Rightarrow> jsval" where
  "obj_get kvs k = (case map_of kvs k of None \<Rightarrow> JUndefined | Some v \<Rightarrow> v)"

text \<open>
  \<open>v?.[k]\<close> for the two key names \<open>pk\<close> and \<open>sk\<close>, which no built-in prototype
  defines: a property of an object, undefined on everything else.
\<close>

fun get_prop :: "jsval \<Rightarrow> string \<Rightarrow> jsval" where
  "get_prop (JObj kvs) k = obj_get kvs k"
| "get_prop v k = JUndefined"

text \<open>
  The values that are not arrays. The \<open>remove\<close> bucket of a request is meant to be an
  array of field names, but nothing stops a caller from sending something else, and the
  code then behaves differently in its two phases; such a value is kept as it is.
\<close>

datatype nonarray =
    NUndefined
  | NNull
  | NBool bool
  | NNum jsnum
  | NStr string
  | NObj "(string \<times> jsval) list"

fun plain :: "nonarray \<Rightarrow> jsval" where
  "plain NUndefined = JUndefined"
| "plain NNull = JNull"
| "plain (NBool b) = JBool b"
| "plain (NNum n) = JNum n"
| "plain (NStr s) = JStr s"
| "plain (NObj kvs) = JObj kvs"

text \<open>
  \<open>v?.length\<close> on a value that is not an array: a string has its length, an object
  only a property that happens to be called \<open>length\<close>, everything else has none.
\<close>

fun length_of :: "nonarray \<Rightarrow> jsval" where
  "length_of (NStr s) = JNum (Fin (of_nat (length s)))"
| "length_of (NObj kvs) = obj_get kvs ''length''"
| "length_of v = JUndefined"

section \<open>Data model\<close>

text \<open>
  The four actions are the keys of \<open>allFields\<close>, in the order the object literal of
  \<open>quickApiUpdateHandler\<close> lists them: \<open>set\<close>, \<open>remove\<close>, \<open>add\<close>, \<open>append\<close>
  (the specification calls them assign, remove, increment, append).
\<close>

datatype action = A_set | A_remove | A_add | A_append

definition actions :: "action list" where
  "actions = [A_set, A_remove, A_add, A_append]"

text \<open>
  An update request that is an object. \<open>set\<close>, \<open>add\<close> and \<open>append\<close> are objects,
  \<open>None\<close> when the property is absent (or falsy, which every test of the code treats
  alike). \<open>remove\<close> is an array of field names (\<open>RArr\<close>) or any other value
  (\<open>ROther\<close>; \<open>ROther NUndefined\<close> is a request without \<open>remove\<close>). An element of
  the update list is \<open>Some\<close> request, or \<open>None\<close> when it is \<open>null\<close> or \<open>undefined\<close>.
\<close>

datatype removeval = RArr "string list" | ROther nonarray

record request =
  item_key :: jsval
  item_set :: "jsobject option"
  item_remove :: removeval
  item_add :: "jsobject option"
  item_append :: "jsobject option"

text \<open>The test \<open>if (request['remove'])\<close>: an array is truthy, also when empty.\<close>

fun remove_truthy :: "removeval \<Rightarrow> bool" where
  "remove_truthy (RArr fs) = True"
| "remove_truthy (ROther v) = truthy (plain v)"

datatype bucket = Mapping jsobject | Sequence "string list" | Other nonarray

text \<open>\<open>item?.[action]\<close>, with \<open>None\<close> for a falsy value.\<close>

fun item_get :: "request \<Rightarrow> action \<Rightarrow> bucket option" where
  "item_get item A_set = map_option Mapping (item_set item)"
| "item_get item A_remove =
     (case item_remove item of
        RArr fs \<Rightarrow> Some (Sequence fs)
      | ROther v \<Rightarrow> if truthy (plain v) then Some (Other v) else None)"
| "item_get item A_add = map_option Mapping (item_add item)"
| "item_get item A_append = map_option Mapping (item_append item)"

record rule =
  allowAll :: jsval
  whitelist :: "string list option"
  blacklist :: "string list option"
  mandatoryFields :: "string list option"

record config =
  actionRules :: "(action \<Rightarrow> rule option) option"
  autoTimestamp :: jsval
  autoVersion :: jsval
  failOnError :: jsval

text \<open>
  The classified fields (\<open>allFields\<close>): three lists of keys, and for \<open>remove\<close> the
  value of the request itself (\<open>item?.remove || []\<close>).
\<close>

record allFields =
  fields_set :: "string list"
  fields_remove :: removeval
  fields_add :: "string list"
  fields_append :: "string list"

text \<open>
  The names that \<open>acc.concat(allFields[action])\<close> appends to the field list. An array
  is spread; any other value is appended as one element. A string is then a name like
  the others. A value that is neither an array nor a string is equal to no name and
  occurs once, so it can neither repeat a name nor be repeated: it is left out.
\<close>

fun allFields_get :: "allFields \<Rightarrow> action \<Rightarrow> string list" where
  "allFields_get af A_set = fields_set af"
| "allFields_get af A_remove =
     (case fields_remove af of RArr fs \<Rightarrow> fs | ROther (NStr s) \<Rightarrow> [s] | ROther v \<Rightarrow> [])"
| "allFields_get af A_add = fields_add af"
| "allFields_get af A_append = fields_append af"

text \<open>
  What the code throws. Every \<open>Exception\<close> of the source carries \<open>code: 400\<close>; the
  constructors follow the source's messages:
  \<^item> \<open>ConfigurationError\<close>: "Malformed configuration";
  \<^item> \<open>MalformedKey\<close>: "Malformed item key: ...";
  \<^item> \<open>ActionNotPermitted a\<close>: "Action 'a' is not permitted here.";
  \<^item> \<open>FieldNotWhitelisted f a\<close>: "Field 'f' is not whitelisted for this action (a).";
  \<^item> \<open>FieldBlacklisted f a\<close>: "Field 'f' is blacklisted for this action (a).";
  \<^item> \<open>MissingMandatoryField f a\<close>: "Field 'f' was expected in action a.";
  \<^item> \<open>DuplicateField f\<close>: "Field 'f' is present in multiple expressions";
  \<^item> \<open>InvalidIncrementType f\<close>: "Invalid field type in 'add' action list", "Field 'f' must be a number";
  \<^item> \<open>InvalidAppendType f\<close>: "Invalid field type in 'append' action list", "Field 'f' must be an array".

  \<open>TypeError\<close> is the runtime's own error: a property read on undefined or null, a
  call of something that is not a function, an iteration over something that is not
  iterable. \<open>MarshallError\<close> is whatever \<open>marshall\<close> throws, with its message.
\<close>

datatype error =
    ConfigurationError
  | MalformedKey
  | ActionNotPermitted action
  | FieldNotWhitelisted string action
  | FieldBlacklisted string action
  | MissingMandatoryField string action
  | DuplicateField string
  | InvalidIncrementType string
  | InvalidAppendType string
  | TypeError
  | MarshallError string

fun error_code :: "error \<Rightarrow> nat option" where
  "error_code TypeError = None"
| "error_code (MarshallError msg) = None"
| "error_code e = Some 400"

section \<open>Control flow helpers\<close>

text \<open>Two statements in sequence, the first of which may throw.\<close>

definition seq :: "error + unit \<Rightarrow> error + 'a \<Rightarrow> error + 'a" where
  "seq r k = (case r of Inl e \<Rightarrow> Inl e | Inr u \<Rightarrow> k)"

text \<open>A \<open>for ... of\<close> loop whose body may throw.\<close>

fun for_each :: "('a \<Rightarrow> error + unit) \<Rightarrow> 'a list \<Rightarrow> error + unit" where
  "for_each body [] = Inr ()"
| "for_each body (x # xs) = (case body x of Inl e \<Rightarrow> Inl e | Inr u \<Rightarrow> for_each body xs)"

section \<open>validateUpdateFields\<close>

text \<open>\<open>item?.[action]?.length > 0\<close>: an array and a string have a length, an object only
  a property that happens to be called \<open>length\<close>.\<close>

fun bucket_length_gt_zero :: "coercion \<Rightarrow> bucket \<Rightarrow> bool" where
  "bucket_length_gt_zero co (Sequence fs) = (0 < length fs)"
| "bucket_length_gt_zero co (Mapping kvs) = js_gt_zero co (obj_get kvs ''length'')"
| "bucket_length_gt_zero co (Other v) = js_gt_zero co (length_of v)"

text \<open>
  \<open>for (const field of allFields?.[action])\<close>: an array yields its elements, a string
  its characters, and nothing else here is iterable.
\<close>

fun iterate :: "allFields \<Rightarrow> action \<Rightarrow> error + string list" where
  "iterate af A_remove =
     (case fields_remove af of
        RArr fs \<Rightarrow> Inr fs
      | ROther (NStr s) \<Rightarrow> Inr (map (\<lambda>c. [c]) s)
      | ROther v \<Rightarrow> Inl TypeError)"
| "iterate af a = Inr (allFields_get af a)"

text \<open>The three rule checks that follow the \<open>allowAll\<close> tests in the loop body.\<close>

definition checkWhitelist :: "rule \<Rightarrow> action \<Rightarrow> allFields \<Rightarrow> error + unit" where
  "checkWhitelist r a af =
     (case whitelist r of
        None \<Rightarrow> Inr ()
      | Some wl \<Rightarrow>
          (case iterate af a of
             Inl e \<Rightarrow> Inl e
           | Inr fs \<Rightarrow>
               for_each (\<lambda>field. if field \<notin> set wl then Inl (FieldNotWhitelisted field a) else Inr ()) fs))"

definition checkBlacklist :: "rule \<Rightarrow> action \<Rightarrow> allFields \<Rightarrow> error + unit" where
  "checkBlacklist r a af =
     (case blacklist r of
        None \<Rightarrow> Inr ()
      | Some bl \<Rightarrow>
          (case iterate af a of
             Inl e \<Rightarrow> Inl e
           | Inr fs \<Rightarrow>
               for_each (\<lambda>field. if field \<in> set bl then Inl (FieldBlacklisted field a) else Inr ()) fs))"

text \<open>
  The mandatory-field loop iterates over \<open>actionRules[action].mandatoryFields\<close>, where
  \<open>actionRules\<close> is already the rule of this action: a rule has no property named after
  an action, so the read is on undefined and throws a \<open>TypeError\<close>.
\<close>

definition checkMandatory :: "rule \<Rightarrow> error + unit" where
  "checkMandatory r = (case mandatoryFields r of None \<Rightarrow> Inr () | Some mf \<Rightarrow> Inl TypeError)"

text \<open>The body of the loop over the actions (lines 197 to 244).\<close>

definition checkAction :: "coercion \<Rightarrow> allFields \<Rightarrow> request \<Rightarrow> config \<Rightarrow> action \<Rightarrow> error + unit" where
  "checkAction co af item cfg a =
     (case item_get item a of
        None \<Rightarrow> Inr ()
      | Some b \<Rightarrow>
          (case (case actionRules cfg of None \<Rightarrow> None | Some rs \<Rightarrow> rs a) of
             None \<Rightarrow>
               (if bucket_length_gt_zero co b then Inl (ActionNotPermitted a) else Inr ())
           | Some r \<Rightarrow>
               if allowAll r \<noteq> JBool True then
                 (if bucket_length_gt_zero co b then Inl (ActionNotPermitted a) else Inr ())
               else if truthy (allowAll r) then Inr ()
               else seq (checkWhitelist r a af) (seq (checkBlacklist r a af) (checkMandatory r))))"

text \<open>The duplicate check: one pass over the concatenated field list with the set \<open>dupeCheck\<close>.\<close>

fun dupeLoop :: "string list \<Rightarrow> string set \<Rightarrow> error + unit" where
  "dupeLoop [] dupeCheck = Inr ()"
| "dupeLoop (field # fs) dupeCheck =
     (if field \<in> dupeCheck then Inl (DuplicateField field)
      else dupeLoop fs (insert field dupeCheck))"

definition fieldsList :: "allFields \<Rightarrow> string list" where
  "fieldsList af = foldl (\<lambda>acc val. acc @ allFields_get af val) [] actions"

text \<open>The type checks; \<open>item.add[field]\<close> on a missing \<open>item.add\<close> is a \<open>TypeError\<close>.\<close>

definition checkAddTypes :: "coercion \<Rightarrow> allFields \<Rightarrow> request \<Rightarrow> error + unit" where
  "checkAddTypes co af item =
     (if 0 < length (fields_add af) then
        for_each (\<lambda>field.
          case item_add item of
            None \<Rightarrow> Inl TypeError
          | Some kvs \<Rightarrow>
              if isNaN co (obj_get kvs field) then Inl (InvalidIncrementType field) else Inr ())
          (fields_add af)
      else Inr ())"

definition checkAppendTypes :: "allFields \<Rightarrow> request \<Rightarrow> error + unit" where
  "checkAppendTypes af item =
     (if 0 < length (fields_append af) then
        for_each (\<lambda>field.
          case item_append item of
            None \<Rightarrow> Inl TypeError
          | Some kvs \<Rightarrow>
              if \<not> isArray (obj_get kvs field) then Inl (InvalidAppendType field) else Inr ())
          (fields_append af)
      else Inr ())"

definition validateUpdateFields :: "coercion \<Rightarrow> allFields \<Rightarrow> request \<Rightarrow> config \<Rightarrow> error + unit" where
  "validateUpdateFields co af item cfg =
     seq (for_each (checkAction co af item cfg) actions)
       (seq (dupeLoop (fieldsList af) {})
          (seq (checkAddTypes co af item) (checkAppendTypes af item)))"

section \<open>updateExpressionBuilder\<close>

text \<open>
  \<open>marshall\<close> comes from the layer \<open>/opt/dynamodb\<close>, which is not part of the sources
  at hand: it is taken as a parameter, a function of the value and of the options object
  (\<open>JUndefined\<close> when the call passes none) that returns the serialized value or throws.
  \<open>getNowISO\<close> of \<open>/opt/base\<close> is represented by its result \<open>now\<close>.
\<close>

type_synonym marshaller = "jsval \<Rightarrow> jsval \<Rightarrow> error + jsval"

definition setOptions :: jsval where
  "setOptions = JObj [(''convertTopLevelContainer'', JBool True), (''removeUndefinedValues'', JBool True)]"

definition addOptions :: jsval where
  "addOptions = JObj [(''removeUndefinedValues'', JBool True)]"

record expression =
  updateExpression :: string
  expressionAttributeNames :: "(string \<times> string) list"
  expressionAttributeValues :: jsobject

text \<open>\<open>Array.prototype.join\<close>\<close>

fun js_join :: "string \<Rightarrow> string list \<Rightarrow> string" where
  "js_join sep [] = []"
| "js_join sep [x] = x"
| "js_join sep (x # y # ys) = x @ sep @ js_join sep (y # ys)"

text \<open>\<open>fields.map((field) => names[`#${field}`] = field)\<close>\<close>

definition assignNames :: "string list \<Rightarrow> (string \<times> string) list \<Rightarrow> (string \<times> string) list" where
  "assignNames fs names = foldl (\<lambda>acc field. AList.update (CHR ''#'' # field) field acc) names fs"

text \<open>
  \<open>fields.map((field) => values[`:${field}`] = marshall(item[action][field], options))\<close>;
  the read \<open>item[action][field]\<close> throws when the bucket is missing, and \<open>marshall\<close>
  may throw.
\<close>

fun assignValues :: "marshaller \<Rightarrow> jsval \<Rightarrow> jsobject option \<Rightarrow> string list \<Rightarrow> jsobject \<Rightarrow> error + jsobject" where
  "assignValues m opts b [] vals = Inr vals"
| "assignValues m opts b (field # fs) vals =
     (case b of
        None \<Rightarrow> Inl TypeError
      | Some kvs \<Rightarrow>
          (case m (obj_get kvs field) opts of
             Inl e \<Rightarrow> Inl e
           | Inr mv \<Rightarrow> assignValues m opts b fs (AList.update (CHR '':'' # field) mv vals)))"

definition setClause :: "string \<Rightarrow> string" where
  "setClause field = '' #'' @ field @ '' = :'' @ field"

definition addClause :: "string \<Rightarrow> string" where
  "addClause field = '' #'' @ field @ '' = if_not_exists(#'' @ field @ '', :add__start__value) + :'' @ field"

definition appendClause :: "string \<Rightarrow> string" where
  "appendClause field =
     '' #'' @ field @ '' = list_append(if_not_exists(#'' @ field @ '', :append__start__value), :'' @ field @ '')''"

text \<open>The values of the \<open>add\<close> block: first \<open>marshall(0)\<close> for the start value, then the fields.\<close>

definition addValues :: "marshaller \<Rightarrow> allFields \<Rightarrow> request \<Rightarrow> jsobject \<Rightarrow> error + jsobject" where
  "addValues m af item vals =
     (case m (JNum (Fin 0)) JUndefined of
        Inl e \<Rightarrow> Inl e
      | Inr zero \<Rightarrow>
          assignValues m addOptions (item_add item) (fields_add af)
            (AList.update '':add__start__value'' zero vals))"

text \<open>
  The SET part. \<open>setExpPortion\<close> and \<open>addExpPortion\<close> are arrays of clauses (or the
  empty string, which like the empty array has length 0), \<open>appendExpPortion\<close> is the
  string the array is coerced to by \<open>+=\<close>. The outer \<open>join\<close> renders each array that
  survived the filter by its own \<open>join\<close> with a comma.
\<close>

definition setPart :: "marshaller \<Rightarrow> allFields \<Rightarrow> request \<Rightarrow> error + (string \<times> (string \<times> string) list \<times> jsobject)" where
  "setPart m af item =
     (if 0 < length (fields_set af) \<or> 0 < length (fields_add af) \<or> 0 < length (fields_append af) then
        (let setExpPortion = (if 0 < length (fields_set af) then map setClause (fields_set af) else []);
             names1 = (if 0 < length (fields_set af) then assignNames (fields_set af) [] else []);
             addExpPortion = (if 0 < length (fields_add af) then map addClause (fields_add af) else []);
             appendExpPortion =
               (if 0 < length (fields_append af) then js_join '','' (map appendClause (fields_append af)) else [])
         in
         case (if 0 < length (fields_set af)
               then assignValues m setOptions (item_set item) (fields_set af) []
               else Inr []) of
           Inl e \<Rightarrow> Inl e
         | Inr values1 \<Rightarrow>
             (case (if 0 < length (fields_add af) then addValues m af item values1 else Inr values1) of
                Inl e \<Rightarrow> Inl e
              | Inr values2 \<Rightarrow>
                  (let names2 = (if 0 < length (fields_add af) then assignNames (fields_add af) names1 else names1)
                   in
                   case (if 0 < length (fields_append af)
                         then assignValues m setOptions (item_append item) (fields_append af)
                                (AList.update '':append__start__value'' (JObj [(''L'', JArr [])]) values2)
                         else Inr values2) of
                     Inl e \<Rightarrow> Inl e
                   | Inr values3 \<Rightarrow>
                       (let names3 = (if 0 < length (fields_append af)
                                      then assignNames (fields_append af) names2 else names2)
                        in Inr (''SET'' @
                                js_join '',''
                                  ((if 0 < length setExpPortion then [js_join '','' setExpPortion] else []) @
                                   (if 0 < length addExpPortion then [js_join '','' addExpPortion] else []) @
                                   (if 0 < length appendExpPortion then [appendExpPortion] else [])),
                                names3, values3)))))
      else Inr ([], [], []))"

text \<open>
  The REMOVE part: \<open>if (allFields.remove?.length > 0)\<close>, then \<open>allFields.remove.map\<close>,
  which only an array has: on any other value with a positive length the call throws.
\<close>

definition removePart :: "coercion \<Rightarrow> allFields \<Rightarrow> error + (string \<times> (string \<times> string) list)" where
  "removePart co af =
     (case fields_remove af of
        RArr fs \<Rightarrow>
          if 0 < length fs
          then Inr (''REMOVE'' @ js_join '','' (map (\<lambda>field. '' #'' @ field) fs), assignNames fs [])
          else Inr ([], [])
      | ROther v \<Rightarrow> if js_gt_zero co (length_of v) then Inl TypeError else Inr ([], []))"

definition updateExpressionBuilder :: "marshaller \<Rightarrow> coercion \<Rightarrow> allFields \<Rightarrow> request \<Rightarrow> error + expression" where
  "updateExpressionBuilder m co af item =
     (case setPart m af item of
        Inl e \<Rightarrow> Inl e
      | Inr (setExpression, setNames, setValues) \<Rightarrow>
          (case removePart co af of
             Inl e \<Rightarrow> Inl e
           | Inr (removeExpression, removeNames) \<Rightarrow>
               (let addExpression = []
                in Inr \<lparr> updateExpression =
                           js_join '' ''
                             (filter (\<lambda>exp. 0 < length exp) [setExpression, addExpression, removeExpression]),
                         expressionAttributeNames =
                           foldl (\<lambda>acc (k, v). AList.update k v acc) setNames removeNames,
                         expressionAttributeValues = setValues \<rparr>)))"

section \<open>validateConfig and the auto fields\<close>

definition validateConfig :: "config \<Rightarrow> error + unit" where
  "validateConfig cfg = (case actionRules cfg of None \<Rightarrow> Inl ConfigurationError | Some rs \<Rightarrow> Inr ())"

text \<open>
  \<open>if (config?.actionRules?.[action]?.whitelist) config.actionRules[action].whitelist.push(field)\<close>.
  Rule objects are values here: two actions sharing one whitelist array are not
  represented (no reachable read of a whitelist exists, see \<open>checkAction\<close>).
\<close>

definition pushWhitelist :: "string \<Rightarrow> action \<Rightarrow> config \<Rightarrow> config" where
  "pushWhitelist field a cfg =
     (case actionRules cfg of
        None \<Rightarrow> cfg
      | Some rs \<Rightarrow>
          (case rs a of
             None \<Rightarrow> cfg
           | Some r \<Rightarrow>
               (case whitelist r of
                  None \<Rightarrow> cfg
                | Some wl \<Rightarrow> cfg\<lparr>actionRules := Some (rs(a \<mapsto> r\<lparr>whitelist := Some (wl @ [field])\<rparr>))\<rparr>)))"

definition orEmpty :: "jsobject option \<Rightarrow> jsobject" where
  "orEmpty b = (case b of None \<Rightarrow> [] | Some kvs \<Rightarrow> kvs)"

text \<open>
  The two assignments of \<open>includeFieldInAction\<close> on a request that is an object:
  \<open>if (!request[action]) request[action] = {}\<close> and \<open>request[action][field] = value\<close>.
  The program calls it with \<open>'set'\<close> and \<open>'add'\<close> only. With \<open>'remove'\<close> a falsy value
  is replaced by a fresh object and an object gets the property; on an array the
  assignment adds a named property, which arrays of field names do not carry here,
  and on any other value it has no effect.
\<close>

fun setField :: "string \<Rightarrow> jsval \<Rightarrow> action \<Rightarrow> request \<Rightarrow> request" where
  "setField field v A_set request =
     request\<lparr>item_set := Some (AList.update field v (orEmpty (item_set request)))\<rparr>"
| "setField field v A_add request =
     request\<lparr>item_add := Some (AList.update field v (orEmpty (item_add request)))\<rparr>"
| "setField field v A_append request =
     request\<lparr>item_append := Some (AList.update field v (orEmpty (item_append request)))\<rparr>"
| "setField field v A_remove request =
     (case item_remove request of
        RArr fs \<Rightarrow> request
      | ROther (NObj kvs) \<Rightarrow> request\<lparr>item_remove := ROther (NObj (AList.update field v kvs))\<rparr>
      | ROther w \<Rightarrow>
          if truthy (plain w) then request
          else request\<lparr>item_remove := ROther (NObj [(field, v)])\<rparr>)"

text \<open>
  A function that changes its arguments in place and may throw returns the error, if
  any, together with the arguments as they are when it returns or throws.

  \<open>includeFieldInAction\<close>: on \<open>null\<close> or \<open>undefined\<close> the first assignment throws,
  before the whitelist is touched.
\<close>

fun includeFieldInAction ::
  "string \<Rightarrow> jsval \<Rightarrow> action \<Rightarrow> request option \<Rightarrow> config \<Rightarrow> error option \<times> request option \<times> config" where
  "includeFieldInAction field v a None cfg = (Some TypeError, None, cfg)"
| "includeFieldInAction field v a (Some request) cfg =
     (None, Some (setField field v a request), pushWhitelist field a cfg)"

text \<open>\<open>delete request[action]?.[field]\<close> for the three object buckets the loop visits.\<close>

fun deleteField :: "string \<Rightarrow> action \<Rightarrow> request \<Rightarrow> request" where
  "deleteField field A_set request = request\<lparr>item_set := map_option (AList.delete field) (item_set request)\<rparr>"
| "deleteField field A_add request = request\<lparr>item_add := map_option (AList.delete field) (item_add request)\<rparr>"
| "deleteField field A_append request =
     request\<lparr>item_append := map_option (AList.delete field) (item_append request)\<rparr>"
| "deleteField field A_remove request = request"

text \<open>
  One round of the loop of \<open>clearRequestFieldFromAllActions\<close>: the delete, then, inside
  the loop as in the source, \<open>request['remove'].filter(...)\<close> when \<open>remove\<close> is truthy.
  Only an array has \<open>filter\<close>: on any other truthy value the call throws, after the
  delete has been done.
\<close>

definition clearStep :: "string \<Rightarrow> request \<Rightarrow> action \<Rightarrow> error option \<times> request" where
  "clearStep field request a =
     (let r = deleteField field a request
      in case item_remove r of
           RArr fs \<Rightarrow> (None, r\<lparr>item_remove := RArr (filter (\<lambda>f. f \<noteq> field) fs)\<rparr>)
         | ROther v \<Rightarrow> if truthy (plain v) then (Some TypeError, r) else (None, r))"

fun clearLoop :: "string \<Rightarrow> request \<Rightarrow> action list \<Rightarrow> error option \<times> request" where
  "clearLoop field request [] = (None, request)"
| "clearLoop field request (a # as) =
     (case clearStep field request a of
        (Some e, r) \<Rightarrow> (Some e, r)
      | (None, r) \<Rightarrow> clearLoop field r as)"

text \<open>On \<open>null\<close> or \<open>undefined\<close> the first read \<open>request[action]\<close> throws.\<close>

fun clearRequestFieldFromAllActions :: "string \<Rightarrow> request option \<Rightarrow> error option \<times> request option" where
  "clearRequestFieldFromAllActions field None = (Some TypeError, None)"
| "clearRequestFieldFromAllActions field (Some request) =
     (case clearLoop field request [A_set, A_add, A_append] of (eo, r) \<Rightarrow> (eo, Some r))"

text \<open>
  \<open>updateList.map((item) => { clearRequestFieldFromAllActions(field, item);
  includeFieldInAction(field, value, action, item, config); })\<close>: the items are changed in
  place, one after the other, and so is the configuration. A throw in the callback ends
  the \<open>map\<close>: the items before are changed, the items after are not.
\<close>

fun autoField ::
  "string \<Rightarrow> jsval \<Rightarrow> action \<Rightarrow> request option list \<Rightarrow> config \<Rightarrow> error option \<times> request option list \<times> config" where
  "autoField field v a [] cfg = (None, [], cfg)"
| "autoField field v a (item # rest) cfg =
     (case clearRequestFieldFromAllActions field item of
        (Some e, item1) \<Rightarrow> (Some e, item1 # rest, cfg)
      | (None, item1) \<Rightarrow>
          (case includeFieldInAction field v a item1 cfg of
             (Some e, item2, cfg') \<Rightarrow> (Some e, item2 # rest, cfg')
           | (None, item2, cfg') \<Rightarrow>
               (case autoField field v a rest cfg' of
                  (eo, rest', cfg'') \<Rightarrow> (eo, item2 # rest', cfg''))))"

text \<open>Lines 110 to 124: the timestamp pass, then the version pass.\<close>

definition applyAutoFields ::
  "jsval \<Rightarrow> request option list \<Rightarrow> config \<Rightarrow> error option \<times> request option list \<times> config" where
  "applyAutoFields now updateList cfg =
     (case (if truthy (autoTimestamp cfg) then autoField ''lastUpdated'' now A_set updateList cfg
            else (None, updateList, cfg)) of
        (Some e, list1, cfg1) \<Rightarrow> (Some e, list1, cfg1)
      | (None, list1, cfg1) \<Rightarrow>
          (if truthy (autoVersion cfg1) then autoField ''version'' (JNum (Fin 1)) A_add list1 cfg1
           else (None, list1, cfg1)))"

section \<open>quickApiUpdateHandler\<close>

record updateData =
  TableName :: string
  Key :: jsval
  UpdateExpression :: string
  ExpressionAttributeNames :: "(string \<times> string) list"
  ExpressionAttributeValues :: jsobject
  ConditionExpression :: string

record updateObj =
  update_action :: string
  update_data :: updateData

text \<open>The classification of the fields (lines 138 to 143).\<close>

definition classify :: "request \<Rightarrow> allFields" where
  "classify item =
     \<lparr> fields_set = (case item_set item of Some kvs \<Rightarrow> map fst kvs | None \<Rightarrow> []),
       fields_remove = (if remove_truthy (item_remove item) then item_remove item else RArr []),
       fields_add = (case item_add item of Some kvs \<Rightarrow> map fst kvs | None \<Rightarrow> []),
       fields_append = (case item_append item of Some kvs \<Rightarrow> map fst kvs | None \<Rightarrow> []) \<rparr>"

text \<open>
  The body of the inner \<open>try\<close> (lines 131 to 167): one item to one update object, or the
  error thrown. On \<open>null\<close> or \<open>undefined\<close>, \<open>item?.key\<close> is undefined. The key is
  serialized last, when the update object is built.
\<close>

definition processItem :: "marshaller \<Rightarrow> coercion \<Rightarrow> string \<Rightarrow> config \<Rightarrow> request option \<Rightarrow> error + updateObj" where
  "processItem m co tableName cfg item' =
     (case item' of
        None \<Rightarrow> Inl MalformedKey
      | Some item \<Rightarrow>
          (let key = item_key item in
           if \<not> truthy key \<or> \<not> truthy (get_prop key ''pk'') \<or> \<not> truthy (get_prop key ''sk'')
           then Inl MalformedKey
           else
             (let af = classify item in
              case validateUpdateFields co af item cfg of
                Inl e \<Rightarrow> Inl e
              | Inr u \<Rightarrow>
                  (case updateExpressionBuilder m co af item of
                     Inl e \<Rightarrow> Inl e
                   | Inr ex \<Rightarrow>
                       (case m (item_key item) JUndefined of
                          Inl e \<Rightarrow> Inl e
                        | Inr k \<Rightarrow>
                            Inr \<lparr> update_action = ''Update'',
                                  update_data =
                                    \<lparr> TableName = tableName,
                                      Key = k,
                                      UpdateExpression = updateExpression ex,
                                      ExpressionAttributeNames = expressionAttributeNames ex,
                                      ExpressionAttributeValues = expressionAttributeValues ex,
                                      ConditionExpression = ''attribute_exists(pk)'' \<rparr> \<rparr>)))))"

text \<open>The loop over the items, with the \<open>catch\<close> that rethrows when \<open>failOnError\<close> is set.\<close>

fun processItems :: "marshaller \<Rightarrow> coercion \<Rightarrow> string \<Rightarrow> config \<Rightarrow> request option list \<Rightarrow> updateObj list \<Rightarrow> error + updateObj list" where
  "processItems m co tableName cfg [] updateItems = Inr updateItems"
| "processItems m co tableName cfg (item # rest) updateItems =
     (case processItem m co tableName cfg item of
        Inr updateObj \<Rightarrow> processItems m co tableName cfg rest (updateItems @ [updateObj])
      | Inl e \<Rightarrow>
          if truthy (failOnError cfg) then Inl e
          else processItems m co tableName cfg rest updateItems)"

text \<open>
  The handler returns what the call yields (the list, or the error thrown) together with
  the two arguments it changes in place: the update list and the configuration. \<open>cfg\<close> is
  the configuration after the default argument has been filled in. The auto fields are
  applied outside the inner \<open>try\<close>: what they throw ends the call, whatever
  \<open>failOnError\<close> says.
\<close>

definition quickApiUpdateHandler ::
  "marshaller \<Rightarrow> coercion \<Rightarrow> jsval \<Rightarrow> string \<Rightarrow> request option list \<Rightarrow> config \<Rightarrow>
     (error + updateObj list) \<times> request option list \<times> config" where
  "quickApiUpdateHandler m co now tableName updateList cfg =
     (case validateConfig cfg of
        Inl e \<Rightarrow> (Inl e, updateList, cfg)
      | Inr u \<Rightarrow>
          (case applyAutoFields now updateList cfg of
             (Some e, list', cfg') \<Rightarrow> (Inl e, list', cfg')
           | (None, list', cfg') \<Rightarrow> (processItems m co tableName cfg' list' [], list', cfg')))"

section \<open>Sample runtime and sample inputs\<close>

text \<open>
  Concrete values on which the theorems below are exercised. The serializer is a
  stand-in for \<open>marshall\<close>: it refuses a number that is not finite, at the top or as a
  property of the top object (the store has no encoding for such a number), and
  otherwise records its two arguments. The text parse yields \<open>NaN\<close>. The key is
  \<open>{pk: "a", sk: "b"}\<close>; \<open>keyOnly\<close> is a request that has only that key, and \<open>policy\<close>
  builds a configuration that has only \<open>actionRules\<close>.
\<close>

fun special :: "jsval \<Rightarrow> bool" where
  "special (JNum (Fin q)) = False"
| "special (JNum n) = True"
| "special v = False"

definition serialized :: "jsval \<Rightarrow> jsval \<Rightarrow> jsval" where
  "serialized v opts = JObj [(''value'', v), (''options'', opts)]"

definition sample_marshall :: marshaller where
  "sample_marshall v opts =
     (if special v \<or> (case v of JObj kvs \<Rightarrow> list_ex (\<lambda>kv. special (snd kv)) kvs | _ \<Rightarrow> False)
      then Inl (MarshallError ''Special numeric value is not allowed'')
      else Inr (serialized v opts))"

definition sample_coercion :: coercion where
  "sample_coercion v = NaN"

definition sample_key :: jsval where
  "sample_key = JObj [(''pk'', JStr ''a''), (''sk'', JStr ''b'')]"

definition keyOnly :: request where
  "keyOnly = \<lparr> item_key = sample_key, item_set = None, item_remove = ROther NUndefined,
               item_add = None, item_append = None \<rparr>"

definition policy :: "(action \<Rightarrow> rule option) \<Rightarrow> config" where
  "policy rs = \<lparr> actionRules = Some rs, autoTimestamp = JUndefined, autoVersion = JUndefined,
                 failOnError = JUndefined \<rparr>"

definition allowAllRule :: rule where
  "allowAllRule = \<lparr> allowAll = JBool True, whitelist = None, blacklist = None, mandatoryFields = None \<rparr>"

definition whitelistRule :: "string list \<Rightarrow> rule" where
  "whitelistRule wl = \<lparr> allowAll = JUndefined, whitelist = Some wl, blacklist = None,
                        mandatoryFields = None \<rparr>"

text \<open>The update object of a request that passes, given its serialized key and its compiled expression.\<close>

definition updateObjOf :: "string \<Rightarrow> jsval \<Rightarrow> string \<Rightarrow> (string \<times> string) list \<Rightarrow> jsobject \<Rightarrow> updateObj" where
  "updateObjOf tableName k ue names vals =
     \<lparr> update_action = ''Update'',
       update_data = \<lparr> TableName = tableName, Key = k, UpdateExpression = ue,
                       ExpressionAttributeNames = names, ExpressionAttributeValues = vals,
                       ConditionExpression = ''attribute_exists(pk)'' \<rparr> \<rparr>"

definition assignStatus :: request where
  "assignStatus = keyOnly\<lparr>item_set := Some [(''status'', JStr ''done'')]\<rparr>"

definition removeStatus :: request where
  "removeStatus = keyOnly\<lparr>item_remove := RArr [''status'']\<rparr>"

definition noRules :: config where
  "noRules = policy (\<lambda>a. None)"

definition assignPolicy :: config where
  "assignPolicy = policy ((\<lambda>a. None)(A_set \<mapsto> allowAllRule))"

section \<open>Predicates of the claims\<close>





text \<open>
  A request as the data model has it: an object whose \<open>remove\<close> is an array or is
  absent (falsy).
\<close>

fun wellFormed :: "request option \<Rightarrow> bool" where
  "wellFormed None = False"
| "wellFormed (Some r) = (case item_remove r of RArr fs \<Rightarrow> True | ROther v \<Rightarrow> \<not> truthy (plain v))"

text \<open>
  The request with every entry for \<open>f\<close> taken out of every bucket, and the request into
  which an auto field has been injected after that.
\<close>

definition cleared :: "string \<Rightarrow> request \<Rightarrow> request" where
  "cleared f r =
     r\<lparr> item_set := map_option (AList.delete f) (item_set r),
        item_add := map_option (AList.delete f) (item_add r),
        item_append := map_option (AList.delete f) (item_append r),
        item_remove := (case item_remove r of
                          RArr fs \<Rightarrow> RArr (filter (\<lambda>x. x \<noteq> f) fs)
                        | ROther v \<Rightarrow> ROther v) \<rparr>"

definition injected :: "string \<Rightarrow> jsval \<Rightarrow> action \<Rightarrow> request \<Rightarrow> request" where
  "injected f v a r = setField f v a (cleared f r)"


section \<open>Unfolding rules and auxiliary facts\<close>

lemmas validate_defs = validateUpdateFields_def classify_def actions_def checkAction_def seq_def
  fieldsList_def checkAddTypes_def checkAppendTypes_def obj_get_def js_gt_zero_def isNaN_def
  checkWhitelist_def checkBlacklist_def checkMandatory_def

lemmas build_defs = updateExpressionBuilder_def setPart_def removePart_def addValues_def
  assignNames_def setClause_def addClause_def appendClause_def

lemmas sample_defs = sample_key_def policy_def allowAllRule_def whitelistRule_def keyOnly_def
  assignStatus_def removeStatus_def noRules_def assignPolicy_def updateObjOf_def

lemmas handler_defs = quickApiUpdateHandler_def validateConfig_def applyAutoFields_def
  processItem_def

lemmas auto_defs = clearStep_def cleared_def injected_def orEmpty_def pushWhitelist_def

subsection \<open>The permission loop\<close>

text \<open>
  Whatever the rule, the loop body either passes or throws \<open>ActionNotPermitted\<close>: when
  \<open>allowAll\<close> is not \<open>true\<close> the first test leaves the body, and when it is \<open>true\<close>
  the second one does, so the whitelist, blacklist and mandatory checks are never reached.
\<close>

lemma checkAction_result:
  "checkAction co af item cfg a = Inr () \<or> checkAction co af item cfg a = Inl (ActionNotPermitted a)"
  by (simp add: checkAction_def split: option.splits)

lemma permission_loop_error:
  "for_each (checkAction co af item cfg) as = Inl e \<Longrightarrow> \<exists>a. e = ActionNotPermitted a"
proof (induction as)
  case Nil
  then show ?case by simp
next
  case (Cons a as)
  show ?case
  proof (cases "checkAction co af item cfg a")
    case (Inl e')
    with Cons.prems have "e = e'" by simp
    moreover from Inl checkAction_result [of co af item cfg a] have "e' = ActionNotPermitted a"
      by simp
    ultimately show ?thesis by blast
  next
    case (Inr u)
    with Cons show ?thesis by simp
  qed
qed

subsection \<open>The duplicate check\<close>

lemma dupeLoop_passes: "dupeLoop fs S = Inr () \<longleftrightarrow> distinct fs \<and> set fs \<inter> S = {}"
  by (induction fs arbitrary: S) auto

lemma dupeLoop_error: "dupeLoop fs S = Inl e \<Longrightarrow> \<exists>g \<in> set fs. e = DuplicateField g"
  by (induction fs arbitrary: S) (auto split: if_splits)

lemma fieldsList_concat:
  "fieldsList af =
     allFields_get af A_set @ allFields_get af A_remove @ allFields_get af A_add @ allFields_get af A_append"
  by (simp add: fieldsList_def actions_def)

lemma shared_field_not_distinct:
  assumes "a \<noteq> b" and "f \<in> set (allFields_get af a)" and "f \<in> set (allFields_get af b)"
  shows "\<not> distinct (fieldsList af)"
  using assms unfolding fieldsList_concat by (cases a; cases b) auto

lemma dupeLoop_shared_field:
  assumes "a \<noteq> b" and "f \<in> set (allFields_get af a)" and "f \<in> set (allFields_get af b)"
  shows "\<exists>g. dupeLoop (fieldsList af) {} = Inl (DuplicateField g)"
proof (cases "dupeLoop (fieldsList af) {}")
  case (Inl e)
  then show ?thesis using dupeLoop_error [OF Inl] by blast
next
  case (Inr u)
  then have "distinct (fieldsList af)" using dupeLoop_passes [of "fieldsList af" "{}"] by simp
  with shared_field_not_distinct [OF assms] show ?thesis by simp
qed

subsection \<open>The loop over the items\<close>

lemma processItem_condition:
  "processItem m co tableName cfg item = Inr d \<Longrightarrow>
   ConditionExpression (update_data d) = ''attribute_exists(pk)''"
  by (auto simp: processItem_def Let_def split: if_splits sum.splits option.splits)

lemma processItems_condition:
  "processItems m co tableName cfg items acc = Inr ds \<Longrightarrow>
   \<forall>d \<in> set acc. ConditionExpression (update_data d) = ''attribute_exists(pk)'' \<Longrightarrow>
   \<forall>d \<in> set ds. ConditionExpression (update_data d) = ''attribute_exists(pk)''"
proof (induction items arbitrary: acc)
  case Nil
  then show ?case by simp
next
  case (Cons item items)
  show ?case
  proof (cases "processItem m co tableName cfg item")
    case (Inl e)
    with Cons.prems(1) have "processItems m co tableName cfg items acc = Inr ds"
      by (simp split: if_splits)
    from Cons.IH [OF this Cons.prems(2)] show ?thesis .
  next
    case (Inr d)
    with Cons.prems(1) have run: "processItems m co tableName cfg items (acc @ [d]) = Inr ds"
      by simp
    have "\<forall>x \<in> set (acc @ [d]). ConditionExpression (update_data x) = ''attribute_exists(pk)''"
      using Cons.prems(2) processItem_condition [OF Inr] by simp
    from Cons.IH [OF run this] show ?thesis .
  qed
qed

subsection \<open>The auto fields\<close>

lemma pushWhitelist_flags:
  "failOnError (pushWhitelist f a cfg) = failOnError cfg"
  "autoVersion (pushWhitelist f a cfg) = autoVersion cfg"
  "autoTimestamp (pushWhitelist f a cfg) = autoTimestamp cfg"
  by (simp_all add: pushWhitelist_def split: option.splits)

lemma clearLoop_error: "fst (clearLoop f r as) = Some e \<Longrightarrow> e = TypeError"
proof (induction as arbitrary: r)
  case Nil
  then show ?case by simp
next
  case (Cons a as)
  obtain eo r1 where st: "clearStep f r a = (eo, r1)" by (cases "clearStep f r a")
  show ?case
  proof (cases eo)
    case None
    with st Cons show ?thesis by simp
  next
    case (Some e')
    with st have "e' = TypeError"
      by (auto simp: clearStep_def Let_def split: removeval.splits if_splits)
    with Some st Cons.prems show ?thesis by simp
  qed
qed

text \<open>A pass of \<open>autoField\<close> throws nothing but a \<open>TypeError\<close> and leaves the flags alone.\<close>

lemma autoField_flags:
  "failOnError (snd (snd (autoField f v a items cfg))) = failOnError cfg \<and>
   autoVersion (snd (snd (autoField f v a items cfg))) = autoVersion cfg \<and>
   autoTimestamp (snd (snd (autoField f v a items cfg))) = autoTimestamp cfg \<and>
   (\<forall>e. fst (autoField f v a items cfg) = Some e \<longrightarrow> e = TypeError)"
proof (induction items arbitrary: cfg)
  case Nil
  then show ?case by simp
next
  case (Cons item items)
  show ?case
  proof (cases item)
    case None
    then show ?thesis by simp
  next
    case (Some r)
    obtain eo r1 where cl: "clearLoop f r [A_set, A_add, A_append] = (eo, r1)"
      by (cases "clearLoop f r [A_set, A_add, A_append]")
    obtain eo' l' c' where rec: "autoField f v a items (pushWhitelist f a cfg) = (eo', l', c')"
      by (cases "autoField f v a items (pushWhitelist f a cfg)")
    from Cons.IH [of "pushWhitelist f a cfg"] rec
    have ih: "failOnError c' = failOnError cfg" "autoVersion c' = autoVersion cfg"
      "autoTimestamp c' = autoTimestamp cfg" "\<forall>e. eo' = Some e \<longrightarrow> e = TypeError"
      by (simp_all add: pushWhitelist_flags)
    show ?thesis
    proof (cases eo)
      case None
      with Some cl rec ih show ?thesis by (simp del: clearLoop.simps)
    next
      case (Some e)
      with cl have "e = TypeError" using clearLoop_error [of f r "[A_set, A_add, A_append]" e] by simp
      with Some \<open>item = Some r\<close> cl show ?thesis by (simp del: clearLoop.simps)
    qed
  qed
qed

lemma applyAutoFields_flags:
  "failOnError (snd (snd (applyAutoFields now items cfg))) = failOnError cfg \<and>
   (\<forall>e. fst (applyAutoFields now items cfg) = Some e \<longrightarrow> e = TypeError)"
proof -
  obtain eo1 l1 c1 where a1: "autoField ''lastUpdated'' now A_set items cfg = (eo1, l1, c1)"
    by (cases "autoField ''lastUpdated'' now A_set items cfg")
  have f1: "failOnError c1 = failOnError cfg" "\<forall>e. eo1 = Some e \<longrightarrow> e = TypeError"
    using autoField_flags [of "''lastUpdated''" now A_set items cfg] a1 by simp_all
  have f2: "failOnError (snd (snd (autoField ''version'' (JNum (Fin 1)) A_add l c))) = failOnError c \<and>
            (\<forall>e. fst (autoField ''version'' (JNum (Fin 1)) A_add l c) = Some e \<longrightarrow> e = TypeError)" for l c
    using autoField_flags [of "''version''" "JNum (Fin 1)" A_add l c] by simp
  show ?thesis
    using a1 f1 f2 [of l1 c1] f2 [of items cfg]
    by (cases eo1) (simp_all add: applyAutoFields_def)
qed

text \<open>On a request of the data model the clearing does not throw.\<close>

lemma clearLoop_wellFormed:
  "wellFormed (Some r) \<Longrightarrow> clearLoop f r [A_set, A_add, A_append] = (None, cleared f r)"
  by (cases "item_remove r") (simp_all add: clearStep_def cleared_def Let_def)




subsection \<open>Objects as property lists\<close>










lemma others_filter:
  "f \<in> F \<Longrightarrow> filter (\<lambda>g. g \<notin> F) (filter (\<lambda>x. x \<noteq> f) fs) = filter (\<lambda>g. g \<notin> F) fs"
  by (induction fs) auto




subsection \<open>A request after an injection\<close>












subsection \<open>A request outside the data model\<close>

text \<open>
  A pass of \<open>autoField\<close> throws as soon as the list holds something that is not an
  object, or an object whose \<open>remove\<close> is truthy and not an array.
\<close>

lemma clearLoop_malformed:
  assumes "item_remove r = ROther w" and "truthy (plain w)"
  shows "fst (clearLoop f r [A_set, A_add, A_append]) = Some TypeError"
  using assms by (simp add: clearStep_def Let_def)

lemma autoField_malformed:
  assumes "\<not> (\<forall>item \<in> set items. wellFormed item)"
  shows "fst (autoField f v a items cfg) = Some TypeError"
  using assms
proof (induction items arbitrary: cfg)
  case Nil
  then show ?case by simp
next
  case (Cons item items)
  show ?case
  proof (cases "wellFormed item")
    case True
    then obtain r where r: "item = Some r" by (cases item) simp_all
    with True have wf: "wellFormed (Some r)" by simp
    from True Cons.prems have "\<not> (\<forall>item \<in> set items. wellFormed item)" by simp
    note ih = Cons.IH [OF this, of "pushWhitelist f a cfg"]
    obtain eo' l' c' where rec: "autoField f v a items (pushWhitelist f a cfg) = (eo', l', c')"
      by (cases "autoField f v a items (pushWhitelist f a cfg)")
    with ih have "eo' = Some TypeError" by simp
    with rec r clearLoop_wellFormed [OF wf, of f]
    show ?thesis by (simp del: clearLoop.simps)
  next
    case False
    show ?thesis
    proof (cases item)
      case None
      then show ?thesis by simp
    next
      case (Some r)
      with False obtain w where w: "item_remove r = ROther w" "truthy (plain w)"
        by (cases "item_remove r") simp_all
      obtain eo r1 where cl: "clearLoop f r [A_set, A_add, A_append] = (eo, r1)"
        by (cases "clearLoop f r [A_set, A_add, A_append]")
      with clearLoop_malformed [OF w, of f] have "eo = Some TypeError" by simp
      with Some cl show ?thesis by (simp del: clearLoop.simps)
    qed
  qed
qed

text \<open>The handler once the configuration has passed.\<close>

lemma handler_after_config:
  assumes "validateConfig cfg = Inr ()"
  shows "quickApiUpdateHandler m co now tableName updateList cfg =
           ((case fst (applyAutoFields now updateList cfg) of
               Some e \<Rightarrow> Inl e
             | None \<Rightarrow> processItems m co tableName (snd (snd (applyAutoFields now updateList cfg)))
                        (fst (snd (applyAutoFields now updateList cfg))) []),
            fst (snd (applyAutoFields now updateList cfg)),
            snd (snd (applyAutoFields now updateList cfg)))"
proof -
  obtain eo l c where a: "applyAutoFields now updateList cfg = (eo, l, c)"
    by (cases "applyAutoFields now updateList cfg")
  with assms show ?thesis by (cases eo) (simp_all add: quickApiUpdateHandler_def)
qed

text \<open>
  So with an auto field switched on, one such request makes the whole call throw,
  whatever \<open>failOnError\<close> says.
\<close>

lemma malformed_request_aborts_call:
  assumes "validateConfig cfg = Inr ()"
    and "truthy (autoTimestamp cfg) \<or> truthy (autoVersion cfg)"
    and "\<not> (\<forall>item \<in> set updateList. wellFormed item)"
  shows "fst (quickApiUpdateHandler m co now tableName updateList cfg) = Inl TypeError"
proof -
  have "fst (applyAutoFields now updateList cfg) = Some TypeError"
  proof (cases "truthy (autoTimestamp cfg)")
    case True
    obtain eo l c where a1: "autoField ''lastUpdated'' now A_set updateList cfg = (eo, l, c)"
      by (cases "autoField ''lastUpdated'' now A_set updateList cfg")
    with autoField_malformed [OF assms(3), of "''lastUpdated''" now A_set cfg]
    have "eo = Some TypeError" by simp
    with True a1 show ?thesis by (simp add: applyAutoFields_def)
  next
    case False
    with assms(2) autoField_malformed [OF assms(3), of "''version''" "JNum (Fin 1)" A_add cfg]
    show ?thesis by (simp add: applyAutoFields_def)
  qed
  then show ?thesis by (simp add: handler_after_config [OF assms(1)])
qed

text \<open>
  Without the auto fields, or on requests of the data model, a batch of three whose
  second request fails in the item loop gives the error when \<open>failOnError\<close> is set and
  the two other update objects otherwise.
\<close>

lemma batch_second_request_fails_in_loop:
  assumes "validateConfig cfg = Inr ()"
    and "applyAutoFields now [ra, rb, rc] cfg = (None, [qa, qb, qc], cfg')"
    and "processItem m co tableName cfg' qa = Inr da"
    and "processItem m co tableName cfg' qb = Inl e"
    and "processItem m co tableName cfg' qc = Inr dc"
  shows "fst (quickApiUpdateHandler m co now tableName [ra, rb, rc] cfg) =
           (if truthy (failOnError cfg) then Inl e else Inr [da, dc])"
proof -
  have "failOnError cfg' = failOnError cfg"
    using applyAutoFields_flags [of now "[ra, rb, rc]" cfg] assms(2) by simp
  with assms show ?thesis by (simp add: quickApiUpdateHandler_def)
qed

subsection \<open>What validation can throw\<close>

lemma for_each_error: "for_each body xs = Inl e \<Longrightarrow> \<exists>x \<in> set xs. body x = Inl e"
  by (induction xs) (auto split: sum.splits)

lemma for_each_passes: "(\<And>x. x \<in> set xs \<Longrightarrow> body x = Inr ()) \<Longrightarrow> for_each body xs = Inr ()"
  by (induction xs) auto

lemma checkAddTypes_error:
  "checkAddTypes co af item = Inl e \<Longrightarrow> e = TypeError \<or> (\<exists>g. e = InvalidIncrementType g)"
  by (auto simp: checkAddTypes_def split: if_splits option.splits dest!: for_each_error)

lemma checkAppendTypes_error:
  "checkAppendTypes af item = Inl e \<Longrightarrow> e = TypeError \<or> (\<exists>g. e = InvalidAppendType g)"
  by (auto simp: checkAppendTypes_def split: if_splits option.splits dest!: for_each_error)

lemma validateUpdateFields_error:
  assumes "validateUpdateFields co af item cfg = Inl e"
  shows "(\<exists>a. e = ActionNotPermitted a) \<or> (\<exists>g. e = DuplicateField g) \<or>
         (\<exists>g. e = InvalidIncrementType g) \<or> (\<exists>g. e = InvalidAppendType g) \<or> e = TypeError"
proof (cases "for_each (checkAction co af item cfg) actions")
  case (Inl e')
  with assms have "e = e'" by (simp add: validateUpdateFields_def seq_def)
  with permission_loop_error [OF Inl] show ?thesis by blast
next
  case loop: (Inr u)
  show ?thesis
  proof (cases "dupeLoop (fieldsList af) {}")
    case (Inl e')
    with assms loop have "e = e'" by (simp add: validateUpdateFields_def seq_def)
    with dupeLoop_error [OF Inl] show ?thesis by blast
  next
    case dup: (Inr u')
    show ?thesis
    proof (cases "checkAddTypes co af item")
      case (Inl e')
      with assms loop dup have "e = e'" by (simp add: validateUpdateFields_def seq_def)
      with checkAddTypes_error [OF Inl] show ?thesis by blast
    next
      case (Inr u'')
      with assms loop dup have "checkAppendTypes af item = Inl e"
        by (simp add: validateUpdateFields_def seq_def)
      from checkAppendTypes_error [OF this] show ?thesis by blast
    qed
  qed
qed

text \<open>No input makes validation throw one of the three rule errors.\<close>

lemma rule_errors_are_unreachable:
  "validateUpdateFields co af item cfg \<noteq> Inl (FieldNotWhitelisted f a) \<and>
   validateUpdateFields co af item cfg \<noteq> Inl (FieldBlacklisted f a) \<and>
   validateUpdateFields co af item cfg \<noteq> Inl (MissingMandatoryField f a)"
  using validateUpdateFields_error [of co af item cfg] by auto

text \<open>
  A non-empty \<open>remove\<close> array whose rule is missing or lacks \<open>allowAll: true\<close> is
  rejected (the error names \<open>remove\<close>, or \<open>set\<close> when that bucket is rejected first).
\<close>

lemma remove_without_rule_is_rejected:
  assumes "item_remove item = RArr fs" and "fs \<noteq> []"
    and "actionRules cfg = Some rs"
    and "rs A_remove = None \<or> (\<exists>r. rs A_remove = Some r \<and> allowAll r \<noteq> JBool True)"
  shows "\<exists>a. validateUpdateFields co (classify item) item cfg = Inl (ActionNotPermitted a)"
proof -
  have rem: "checkAction co (classify item) item cfg A_remove = Inl (ActionNotPermitted A_remove)"
    using assms by (auto simp: checkAction_def)
  have "\<exists>e. for_each (checkAction co (classify item) item cfg) actions = Inl e"
    using rem checkAction_result [of co "classify item" item cfg A_set]
    by (auto simp: actions_def)
  then obtain e where e: "for_each (checkAction co (classify item) item cfg) actions = Inl e"
    by blast
  then have "validateUpdateFields co (classify item) item cfg = Inl e"
    by (simp add: validateUpdateFields_def seq_def)
  with permission_loop_error [OF e] show ?thesis by blast
qed

text \<open>
  An object bucket that has no property called \<open>length\<close> passes the permission loop
  whatever the rule of its action is.
\<close>

lemma mapping_without_length_passes:
  assumes "item_get item a = Some (Mapping kvs)" and "map_of kvs ''length'' = None"
  shows "checkAction co af item cfg a = Inr ()"
  using assms
  by (simp add: checkAction_def obj_get_def js_gt_zero_def split: option.splits)

text \<open>Increments that are numbers other than \<open>NaN\<close> pass the type check of \<open>add\<close>.\<close>

lemma numeric_increments_pass:
  assumes "item_add item = Some kvs"
    and "\<forall>kv \<in> set kvs. \<exists>n. snd kv = JNum n \<and> n \<noteq> NaN"
  shows "checkAddTypes co (classify item) item = Inr ()"
proof -
  have "\<not> isNaN co (obj_get kvs field)" if "field \<in> set (map fst kvs)" for field
  proof -
    from that obtain v where "map_of kvs field = Some v"
      by (metis map_of_eq_None_iff not_None_eq set_map)
    moreover from this have "(field, v) \<in> set kvs" by (rule map_of_SomeD)
    ultimately show ?thesis using assms(2) by (auto simp: obj_get_def isNaN_def)
  qed
  then show ?thesis using assms(1)
    by (auto simp: checkAddTypes_def classify_def intro!: for_each_passes)
qed


section \<open>The claims\<close>

subsection \<open>C1: a bucket without an allowing rule\<close>

text \<open>
  C1 says that a non-empty bucket whose action has no rule, or a rule without
  \<open>allowAll: true\<close>, makes validation fail with \<open>ActionNotPermitted\<close>. The code tests
  \<open>item[action].length > 0\<close>, which an array has and an object has not: the request
  \<open>{key, set: {status: "done"}}\<close> under a policy with no rule at all passes validation
  and is compiled to \<open>SET #status = :status\<close> (unless the serializer throws), while
  \<open>{key, remove: ["status"]}\<close> under the same policy is rejected as the claim says.
\<close>

theorem assign_without_rule_is_accepted:
  "validateUpdateFields co (classify assignStatus) assignStatus noRules = Inr () \<and>
   processItem m co tableName noRules (Some assignStatus) =
     (case m (JStr ''done'') setOptions of
        Inl e \<Rightarrow> Inl e
      | Inr v \<Rightarrow>
          (case m sample_key JUndefined of
             Inl e \<Rightarrow> Inl e
           | Inr k \<Rightarrow>
               Inr (updateObjOf tableName k ''SET #status = :status''
                      [(''#status'', ''status'')] [('':status'', v)]))) \<and>
   validateUpdateFields co (classify removeStatus) removeStatus noRules =
     Inl (ActionNotPermitted A_remove)"
  by (simp add: processItem_def validate_defs build_defs sample_defs split: sum.splits)

theorem assign_without_rule_is_accepted_witness:
  "validateUpdateFields sample_coercion (classify assignStatus) assignStatus noRules = Inr () \<and>
   processItem sample_marshall sample_coercion ''table'' noRules (Some assignStatus) =
     Inr (updateObjOf ''table'' (serialized sample_key JUndefined) ''SET #status = :status''
            [(''#status'', ''status'')] [('':status'', serialized (JStr ''done'') setOptions)]) \<and>
   validateUpdateFields sample_coercion (classify removeStatus) removeStatus noRules =
     Inl (ActionNotPermitted A_remove)"
  using assign_without_rule_is_accepted [of sample_coercion sample_marshall "''table''"]
  by (simp add: sample_marshall_def sample_key_def)

subsection \<open>C2: a batch of three whose second request is invalid\<close>

text \<open>
  C2 says that with \<open>failOnError\<close> false a batch of three whose second request is
  invalid yields the two update objects of the first and the third. The item loop does
  that (\<open>batch_second_request_fails_in_loop\<close>), but the auto fields are applied to the
  whole list before the loop and outside its \<open>try\<close>, and there
  \<open>clearRequestFieldFromAllActions\<close> reads \<open>request[action]\<close> and calls
  \<open>request['remove'].filter\<close> unguarded. With \<open>autoTimestamp\<close> set and \<open>failOnError\<close>
  not set, the batch whose second request is \<open>{key, remove: "status"}\<close>, or is
  \<open>null\<close>, makes the whole call throw a \<open>TypeError\<close>. The item loop rejects the same
  two requests one by one, and without the auto field the same batch yields the update
  objects of the first and the third request.
\<close>

theorem invalid_request_aborts_batch:
  "fst (quickApiUpdateHandler m co now tableName
          [Some assignStatus, Some (keyOnly\<lparr>item_remove := ROther (NStr ''status'')\<rparr>), Some keyOnly]
          (assignPolicy\<lparr>autoTimestamp := JBool True\<rparr>)) = Inl TypeError \<and>
   fst (quickApiUpdateHandler m co now tableName [Some assignStatus, None, Some keyOnly]
          (assignPolicy\<lparr>autoTimestamp := JBool True\<rparr>)) = Inl TypeError \<and>
   processItem m co tableName assignPolicy (Some (keyOnly\<lparr>item_remove := ROther (NStr ''status'')\<rparr>)) =
     Inl (ActionNotPermitted A_remove) \<and>
   processItem m co tableName assignPolicy None = Inl MalformedKey \<and>
   fst (quickApiUpdateHandler m co now tableName
          [Some assignStatus, Some (keyOnly\<lparr>item_remove := ROther (NStr ''status'')\<rparr>), Some keyOnly]
          assignPolicy) =
     Inr ((case processItem m co tableName assignPolicy (Some assignStatus) of
             Inl e \<Rightarrow> [] | Inr d \<Rightarrow> [d]) @
          (case processItem m co tableName assignPolicy (Some keyOnly) of
             Inl e \<Rightarrow> [] | Inr d \<Rightarrow> [d]))"
proof -
  have cfg: "validateConfig (assignPolicy\<lparr>autoTimestamp := JBool True\<rparr>) = Inr ()"
    by (simp add: validateConfig_def assignPolicy_def policy_def)
  have flag: "truthy (autoTimestamp (assignPolicy\<lparr>autoTimestamp := JBool True\<rparr>)) \<or>
              truthy (autoVersion (assignPolicy\<lparr>autoTimestamp := JBool True\<rparr>))"
    by simp
  have a: "fst (quickApiUpdateHandler m co now tableName
          [Some assignStatus, Some (keyOnly\<lparr>item_remove := ROther (NStr ''status'')\<rparr>), Some keyOnly]
          (assignPolicy\<lparr>autoTimestamp := JBool True\<rparr>)) = Inl TypeError"
    by (rule malformed_request_aborts_call [OF cfg flag]) simp
  have b: "fst (quickApiUpdateHandler m co now tableName [Some assignStatus, None, Some keyOnly]
          (assignPolicy\<lparr>autoTimestamp := JBool True\<rparr>)) = Inl TypeError"
    by (rule malformed_request_aborts_call [OF cfg flag]) simp
  have c: "processItem m co tableName assignPolicy
             (Some (keyOnly\<lparr>item_remove := ROther (NStr ''status'')\<rparr>)) =
           Inl (ActionNotPermitted A_remove)"
    by (simp add: processItem_def validate_defs sample_defs)
  have d: "processItem m co tableName assignPolicy None = Inl MalformedKey"
    by (simp add: processItem_def)
  have e: "fst (quickApiUpdateHandler m co now tableName
          [Some assignStatus, Some (keyOnly\<lparr>item_remove := ROther (NStr ''status'')\<rparr>), Some keyOnly]
          assignPolicy) =
     Inr ((case processItem m co tableName assignPolicy (Some assignStatus) of
             Inl e \<Rightarrow> [] | Inr d \<Rightarrow> [d]) @
          (case processItem m co tableName assignPolicy (Some keyOnly) of
             Inl e \<Rightarrow> [] | Inr d \<Rightarrow> [d]))"
    using c
    by (simp add: quickApiUpdateHandler_def validateConfig_def applyAutoFields_def
          assignPolicy_def policy_def split: sum.splits)
  from a b c d e show ?thesis by blast
qed

theorem invalid_request_aborts_batch_witness:
  "fst (quickApiUpdateHandler sample_marshall sample_coercion (JStr ''now'') ''table''
          [Some assignStatus, Some (keyOnly\<lparr>item_remove := ROther (NStr ''status'')\<rparr>), Some keyOnly]
          (assignPolicy\<lparr>autoTimestamp := JBool True\<rparr>)) = Inl TypeError \<and>
   fst (quickApiUpdateHandler sample_marshall sample_coercion (JStr ''now'') ''table''
          [Some assignStatus, Some (keyOnly\<lparr>item_remove := ROther (NStr ''status'')\<rparr>), Some keyOnly]
          assignPolicy) =
     Inr [updateObjOf ''table'' (serialized sample_key JUndefined) ''SET #status = :status''
            [(''#status'', ''status'')] [('':status'', serialized (JStr ''done'') setOptions)],
          updateObjOf ''table'' (serialized sample_key JUndefined) '''' [] []]"
proof -
  have A: "processItem sample_marshall sample_coercion ''table'' assignPolicy (Some assignStatus) =
             Inr (updateObjOf ''table'' (serialized sample_key JUndefined) ''SET #status = :status''
                    [(''#status'', ''status'')] [('':status'', serialized (JStr ''done'') setOptions)])"
    by (simp add: processItem_def validate_defs build_defs sample_defs sample_marshall_def)
  have C: "processItem sample_marshall sample_coercion ''table'' assignPolicy (Some keyOnly) =
             Inr (updateObjOf ''table'' (serialized sample_key JUndefined) '''' [] [])"
    by (simp add: processItem_def validate_defs build_defs sample_defs sample_marshall_def)
  from invalid_request_aborts_batch [of sample_marshall sample_coercion "JStr ''now''" "''table''"]
  show ?thesis by (simp add: A C)
qed

subsection \<open>C3: a field named in two buckets\<close>

text \<open>
  C3 as stated, that a field named in two buckets always makes validation fail with
  \<open>DuplicateField\<close>, does not hold: the permission loop runs first, and the request
  \<open>{key, set: {status: "done"}, remove: ["status"]}\<close> under a policy that allows only
  \<open>set\<close> is rejected with \<open>ActionNotPermitted\<close> for \<open>remove\<close>.
\<close>

theorem duplicate_field_counterexample:
  "''status'' \<in> set (allFields_get (classify (assignStatus\<lparr>item_remove := RArr [''status'']\<rparr>)) A_set) \<and>
   ''status'' \<in> set (allFields_get (classify (assignStatus\<lparr>item_remove := RArr [''status'']\<rparr>)) A_remove) \<and>
   validateUpdateFields sample_coercion (classify (assignStatus\<lparr>item_remove := RArr [''status'']\<rparr>))
     (assignStatus\<lparr>item_remove := RArr [''status'']\<rparr>) assignPolicy =
     Inl (ActionNotPermitted A_remove)"
  by (simp add: validate_defs sample_defs)

text \<open>
  C3 as amended: when a field is named in two different buckets of a request, validation
  always fails. If the permission loop passes, it fails with \<open>DuplicateField\<close>, found on
  the one list that concatenates the four buckets; if the permission loop throws, its
  error, an \<open>ActionNotPermitted\<close>, is the result.
\<close>

theorem duplicate_field_rejected:
  assumes "a \<noteq> b"
    and "f \<in> set (allFields_get (classify item) a)"
    and "f \<in> set (allFields_get (classify item) b)"
  shows "(for_each (checkAction co (classify item) item cfg) actions = Inr () \<longrightarrow>
            (\<exists>g. validateUpdateFields co (classify item) item cfg = Inl (DuplicateField g))) \<and>
         (\<forall>e. for_each (checkAction co (classify item) item cfg) actions = Inl e \<longrightarrow>
            validateUpdateFields co (classify item) item cfg = Inl e \<and>
            (\<exists>a'. e = ActionNotPermitted a'))"
proof (intro conjI impI allI)
  assume "for_each (checkAction co (classify item) item cfg) actions = Inr ()"
  moreover obtain g where "dupeLoop (fieldsList (classify item)) {} = Inl (DuplicateField g)"
    using dupeLoop_shared_field [OF assms] by blast
  ultimately show "\<exists>g. validateUpdateFields co (classify item) item cfg = Inl (DuplicateField g)"
    by (simp add: validateUpdateFields_def seq_def)
next
  fix e assume "for_each (checkAction co (classify item) item cfg) actions = Inl e"
  then show "validateUpdateFields co (classify item) item cfg = Inl e"
    by (simp add: validateUpdateFields_def seq_def)
next
  fix e assume "for_each (checkAction co (classify item) item cfg) actions = Inl e"
  then show "\<exists>a'. e = ActionNotPermitted a'" by (rule permission_loop_error)
qed

theorem duplicate_field_rejected_witness:
  "A_set \<noteq> A_add \<and>
   for_each (checkAction sample_coercion
               (classify (assignStatus\<lparr>item_add := Some [(''status'', JNum (Fin 1))]\<rparr>))
               (assignStatus\<lparr>item_add := Some [(''status'', JNum (Fin 1))]\<rparr>)
               (policy (\<lambda>a. Some allowAllRule))) actions = Inr () \<and>
   validateUpdateFields sample_coercion
     (classify (assignStatus\<lparr>item_add := Some [(''status'', JNum (Fin 1))]\<rparr>))
     (assignStatus\<lparr>item_add := Some [(''status'', JNum (Fin 1))]\<rparr>)
     (policy (\<lambda>a. Some allowAllRule)) = Inl (DuplicateField ''status'')"
  using duplicate_field_rejected
          [of A_set A_add "''status''" "assignStatus\<lparr>item_add := Some [(''status'', JNum (Fin 1))]\<rparr>"
              sample_coercion "policy (\<lambda>a. Some allowAllRule)"]
  by (simp add: validate_defs sample_defs)

subsection \<open>C4: the type check of the increments\<close>

text \<open>
  C4 says that a non-numeric value in the increment bucket makes validation fail with
  \<open>InvalidIncrementType\<close>. The code tests \<open>isNaN(value)\<close>, which converts before it
  tests: the boolean \<open>true\<close> converts to 1. The request \<open>{key, add: {count: true}}\<close>
  under \<open>{actionRules: {add: {allowAll: true}}}\<close> passes validation and is compiled
  (unless the serializer throws), with the boolean as the increment.
\<close>

theorem boolean_increment_is_accepted:
  "validateUpdateFields co (classify (keyOnly\<lparr>item_add := Some [(''count'', JBool True)]\<rparr>))
     (keyOnly\<lparr>item_add := Some [(''count'', JBool True)]\<rparr>)
     (policy ((\<lambda>a. None)(A_add \<mapsto> allowAllRule))) = Inr () \<and>
   processItem m co tableName (policy ((\<lambda>a. None)(A_add \<mapsto> allowAllRule)))
     (Some (keyOnly\<lparr>item_add := Some [(''count'', JBool True)]\<rparr>)) =
     (case m (JNum (Fin 0)) JUndefined of
        Inl e \<Rightarrow> Inl e
      | Inr zero \<Rightarrow>
          (case m (JBool True) addOptions of
             Inl e \<Rightarrow> Inl e
           | Inr v \<Rightarrow>
               (case m sample_key JUndefined of
                  Inl e \<Rightarrow> Inl e
                | Inr k \<Rightarrow>
                    Inr (updateObjOf tableName k
                           ''SET #count = if_not_exists(#count, :add__start__value) + :count''
                           [(''#count'', ''count'')]
                           [('':add__start__value'', zero), ('':count'', v)]))))"
  by (simp add: processItem_def validate_defs build_defs sample_defs split: sum.splits)

theorem boolean_increment_is_accepted_witness:
  "validateUpdateFields sample_coercion (classify (keyOnly\<lparr>item_add := Some [(''count'', JBool True)]\<rparr>))
     (keyOnly\<lparr>item_add := Some [(''count'', JBool True)]\<rparr>)
     (policy ((\<lambda>a. None)(A_add \<mapsto> allowAllRule))) = Inr () \<and>
   processItem sample_marshall sample_coercion ''table'' (policy ((\<lambda>a. None)(A_add \<mapsto> allowAllRule)))
     (Some (keyOnly\<lparr>item_add := Some [(''count'', JBool True)]\<rparr>)) =
     Inr (updateObjOf ''table'' (serialized sample_key JUndefined)
            ''SET #count = if_not_exists(#count, :add__start__value) + :count''
            [(''#count'', ''count'')]
            [('':add__start__value'', serialized (JNum (Fin 0)) JUndefined),
             ('':count'', serialized (JBool True) addOptions)])"
  using boolean_increment_is_accepted [of sample_coercion sample_marshall "''table''"]
  by (simp add: sample_marshall_def sample_key_def)

subsection \<open>C5: a field outside the whitelist\<close>

text \<open>
  C5 says that under a rule with a whitelist and without \<open>allowAll: true\<close> a field
  outside the whitelist makes validation fail with \<open>FieldNotWhitelisted\<close>. The code never
  reaches its whitelist loop. Under a policy whose every rule is \<open>{whitelist: ["status"]}\<close>
  the request \<open>{key, set: {secret: "x"}}\<close> passes validation, and
  \<open>{key, remove: ["secret"]}\<close> fails with \<open>ActionNotPermitted\<close>.
\<close>

theorem unlisted_field_is_accepted:
  "validateUpdateFields co (classify (keyOnly\<lparr>item_set := Some [(''secret'', JStr ''x'')]\<rparr>))
     (keyOnly\<lparr>item_set := Some [(''secret'', JStr ''x'')]\<rparr>)
     (policy (\<lambda>a. Some (whitelistRule [''status'']))) = Inr () \<and>
   validateUpdateFields co (classify (keyOnly\<lparr>item_remove := RArr [''secret'']\<rparr>))
     (keyOnly\<lparr>item_remove := RArr [''secret'']\<rparr>)
     (policy (\<lambda>a. Some (whitelistRule [''status'']))) = Inl (ActionNotPermitted A_remove)"
  by (simp add: validate_defs sample_defs)

theorem unlisted_field_is_accepted_witness:
  "validateUpdateFields sample_coercion (classify (keyOnly\<lparr>item_set := Some [(''secret'', JStr ''x'')]\<rparr>))
     (keyOnly\<lparr>item_set := Some [(''secret'', JStr ''x'')]\<rparr>)
     (policy (\<lambda>a. Some (whitelistRule [''status'']))) = Inr () \<and>
   validateUpdateFields sample_coercion (classify (keyOnly\<lparr>item_remove := RArr [''secret'']\<rparr>))
     (keyOnly\<lparr>item_remove := RArr [''secret'']\<rparr>)
     (policy (\<lambda>a. Some (whitelistRule [''status'']))) = Inl (ActionNotPermitted A_remove)"
  by (rule unlisted_field_is_accepted)

subsection \<open>C6: the auto fields replace what the caller supplied\<close>



subsection \<open>C7: a configuration without actionRules\<close>

text \<open>
  C7: when the configuration has no \<open>actionRules\<close> the call throws the configuration
  error, whatever \<open>failOnError\<close> says, and leaves the update list and the configuration
  as they were: no auto field is injected and no request is processed.
\<close>

theorem missing_actionRules_is_fatal:
  "actionRules cfg = None \<Longrightarrow>
   quickApiUpdateHandler m co now tableName updateList cfg = (Inl ConfigurationError, updateList, cfg)"
  by (simp add: quickApiUpdateHandler_def validateConfig_def)

theorem missing_actionRules_is_fatal_witness:
  "actionRules (noRules\<lparr>actionRules := None, autoTimestamp := JBool True\<rparr>) = None \<and>
   quickApiUpdateHandler sample_marshall sample_coercion (JStr ''now'') ''table''
     [Some assignStatus, None, Some removeStatus]
     (noRules\<lparr>actionRules := None, autoTimestamp := JBool True\<rparr>) =
     (Inl ConfigurationError, [Some assignStatus, None, Some removeStatus],
      noRules\<lparr>actionRules := None, autoTimestamp := JBool True\<rparr>)"
proof -
  have h: "actionRules (noRules\<lparr>actionRules := None, autoTimestamp := JBool True\<rparr>) = None"
    by simp
  from h missing_actionRules_is_fatal [OF h] show ?thesis by simp
qed

subsection \<open>C8: the worked example\<close>

text \<open>
  C8: the request \<open>{key: {pk: "a", sk: "b"}, set: {status: "done"}}\<close> under the policy
  \<open>{actionRules: {set: {allowAll: true}}}\<close> yields one update object, with the update
  expression \<open>SET #status = :status\<close>, the names \<open>{"#status": "status"}\<close> and the values
  \<open>{":status": marshall("done", ...)}\<close>; the request and the policy are left unchanged.
  The serializer is called on \<open>"done"\<close> and then on the key; were it to throw on one of
  them, the error would be logged and the list returned would be empty.
\<close>

theorem assign_status_example:
  "quickApiUpdateHandler m co now tableName [Some assignStatus] assignPolicy =
     (Inr (case m (JStr ''done'') setOptions of
             Inl e \<Rightarrow> []
           | Inr v \<Rightarrow>
               (case m sample_key JUndefined of
                  Inl e \<Rightarrow> []
                | Inr k \<Rightarrow>
                    [updateObjOf tableName k ''SET #status = :status''
                       [(''#status'', ''status'')] [('':status'', v)]])),
      [Some assignStatus], assignPolicy)"
  by (simp add: handler_defs validate_defs build_defs sample_defs split: sum.splits)

theorem assign_status_example_witness:
  "quickApiUpdateHandler sample_marshall sample_coercion (JStr ''now'') ''table''
     [Some assignStatus] assignPolicy =
     (Inr [updateObjOf ''table'' (serialized sample_key JUndefined) ''SET #status = :status''
             [(''#status'', ''status'')] [('':status'', serialized (JStr ''done'') setOptions)]],
      [Some assignStatus], assignPolicy)"
  using assign_status_example [of sample_marshall sample_coercion "JStr ''now''" "''table''"]
  by (simp add: sample_marshall_def sample_key_def)

subsection \<open>C9: the existence condition\<close>

text \<open>
  C9: every update object in the list the handler returns carries the condition
  expression \<open>attribute_exists(pk)\<close>.
\<close>

theorem descriptor_requires_existing_record:
  "fst (quickApiUpdateHandler m co now tableName updateList cfg) = Inr ds \<Longrightarrow>
   \<forall>d \<in> set ds. ConditionExpression (update_data d) = ''attribute_exists(pk)''"
  by (auto simp: quickApiUpdateHandler_def split: sum.splits prod.splits option.splits
        dest: processItems_condition)

theorem descriptor_requires_existing_record_witness:
  "fst (quickApiUpdateHandler sample_marshall sample_coercion (JStr ''now'') ''table''
          [Some assignStatus, Some removeStatus] assignPolicy) =
     Inr [updateObjOf ''table'' (serialized sample_key JUndefined) ''SET #status = :status''
            [(''#status'', ''status'')] [('':status'', serialized (JStr ''done'') setOptions)]] \<and>
   ConditionExpression (update_data
     (updateObjOf ''table'' (serialized sample_key JUndefined) ''SET #status = :status''
        [(''#status'', ''status'')] [('':status'', serialized (JStr ''done'') setOptions)])) =
     ''attribute_exists(pk)''"
proof -
  have run: "fst (quickApiUpdateHandler sample_marshall sample_coercion (JStr ''now'') ''table''
          [Some assignStatus, Some removeStatus] assignPolicy) =
     Inr [updateObjOf ''table'' (serialized sample_key JUndefined) ''SET #status = :status''
            [(''#status'', ''status'')] [('':status'', serialized (JStr ''done'') setOptions)]]"
    by (simp add: handler_defs validate_defs build_defs sample_defs sample_marshall_def)
  from descriptor_requires_existing_record [OF run] run show ?thesis by simp
qed

subsection \<open>C10: a request without buckets\<close>

text \<open>
  C10 as stated, that a request whose key has a \<open>pk\<close> and an \<open>sk\<close> and which has none of
  the four buckets always compiles to an update object with the empty update expression
  and empty maps, does not hold. Passed to the handler under a policy with
  \<open>autoTimestamp\<close>, the request \<open>{key: {pk: "a", sk: "b"}}\<close> is given a \<open>set\<close> bucket
  before it is compiled, and its update expression is \<open>SET #lastUpdated = :lastUpdated\<close>.
  And the key is serialized inside the \<open>try\<close> of the item: with a serializer that
  refuses a number that is not finite, the request \<open>{key: {pk: Infinity, sk: "b"}}\<close>,
  whose \<open>pk\<close> and \<open>sk\<close> are both truthy, yields the serializer's error and no update
  object.
\<close>

theorem request_without_buckets_counterexample:
  "truthy (get_prop (item_key keyOnly) ''pk'') \<and> truthy (get_prop (item_key keyOnly) ''sk'') \<and>
   item_set keyOnly = None \<and> \<not> remove_truthy (item_remove keyOnly) \<and>
   item_add keyOnly = None \<and> item_append keyOnly = None \<and>
   fst (quickApiUpdateHandler sample_marshall sample_coercion (JStr ''now'') ''table'' [Some keyOnly]
          (assignPolicy\<lparr>autoTimestamp := JBool True\<rparr>)) =
     Inr [updateObjOf ''table'' (serialized sample_key JUndefined) ''SET #lastUpdated = :lastUpdated''
            [(''#lastUpdated'', ''lastUpdated'')]
            [('':lastUpdated'', serialized (JStr ''now'') setOptions)]] \<and>
   truthy (get_prop (JObj [(''pk'', JNum PosInf), (''sk'', JStr ''b'')]) ''pk'') \<and>
   truthy (get_prop (JObj [(''pk'', JNum PosInf), (''sk'', JStr ''b'')]) ''sk'') \<and>
   processItem sample_marshall sample_coercion ''table'' noRules
     (Some (keyOnly\<lparr>item_key := JObj [(''pk'', JNum PosInf), (''sk'', JStr ''b'')]\<rparr>)) =
     Inl (MarshallError ''Special numeric value is not allowed'')"
  by (simp add: handler_defs auto_defs validate_defs build_defs sample_defs sample_marshall_def
        serialized_def obj_get_def)

text \<open>
  C10 as amended: a request whose key has a truthy \<open>pk\<close> and a truthy \<open>sk\<close> (a non-empty
  string is truthy) and which has none of the four buckets when it is compiled passes
  validation under every configuration; its compilation calls the serializer once, on
  the key, and yields what that call throws or else an update object with the empty
  update expression and empty name and value maps. Through the handler this is the
  outcome when neither auto field is set: the list returned holds that one update
  object, or, when the serializer throws, the call rethrows if \<open>failOnError\<close> is set and
  returns the empty list if not.
\<close>

theorem request_without_buckets_compiles:
  assumes "truthy (get_prop (item_key item) ''pk'')"
    and "truthy (get_prop (item_key item) ''sk'')"
    and "item_set item = None" and "\<not> remove_truthy (item_remove item)"
    and "item_add item = None" and "item_append item = None"
  shows "validateUpdateFields co (classify item) item cfg = Inr () \<and>
         processItem m co tableName cfg (Some item) =
           (case m (item_key item) JUndefined of
              Inl e \<Rightarrow> Inl e
            | Inr k \<Rightarrow> Inr (updateObjOf tableName k '''' [] [])) \<and>
         (validateConfig cfg = Inr () \<longrightarrow>
          \<not> truthy (autoTimestamp cfg) \<longrightarrow> \<not> truthy (autoVersion cfg) \<longrightarrow>
          quickApiUpdateHandler m co now tableName [Some item] cfg =
            (case m (item_key item) JUndefined of
               Inl e \<Rightarrow> if truthy (failOnError cfg) then Inl e else Inr []
             | Inr k \<Rightarrow> Inr [updateObjOf tableName k '''' [] []],
             [Some item], cfg))"
proof -
  from assms(1) have key: "truthy (item_key item)" by (cases "item_key item") simp_all
  from assms(3-6) have v: "validateUpdateFields co (classify item) item cfg = Inr ()"
    by (cases "item_remove item") (simp_all add: validate_defs)
  from assms(3-6) have b: "updateExpressionBuilder m co (classify item) item =
      Inr \<lparr>updateExpression = '''', expressionAttributeNames = [], expressionAttributeValues = []\<rparr>"
    by (cases "item_remove item") (simp_all add: build_defs classify_def)
  from key assms(1,2) v b
  have p: "processItem m co tableName cfg (Some item) =
           (case m (item_key item) JUndefined of
              Inl e \<Rightarrow> Inl e
            | Inr k \<Rightarrow> Inr (updateObjOf tableName k '''' [] []))"
    by (simp add: processItem_def updateObjOf_def split: sum.splits)
  have h: "quickApiUpdateHandler m co now tableName [Some item] cfg =
            (case m (item_key item) JUndefined of
               Inl e \<Rightarrow> if truthy (failOnError cfg) then Inl e else Inr []
             | Inr k \<Rightarrow> Inr [updateObjOf tableName k '''' [] []],
             [Some item], cfg)"
    if "validateConfig cfg = Inr ()" "\<not> truthy (autoTimestamp cfg)" "\<not> truthy (autoVersion cfg)"
    using that p
    by (simp add: quickApiUpdateHandler_def applyAutoFields_def split: sum.splits)
  from v p h show ?thesis by blast
qed

theorem request_without_buckets_compiles_witness:
  "truthy (get_prop (item_key keyOnly) ''pk'') \<and> truthy (get_prop (item_key keyOnly) ''sk'') \<and>
   validateUpdateFields sample_coercion (classify keyOnly) keyOnly noRules = Inr () \<and>
   processItem sample_marshall sample_coercion ''table'' noRules (Some keyOnly) =
     Inr (updateObjOf ''table'' (serialized sample_key JUndefined) '''' [] []) \<and>
   quickApiUpdateHandler sample_marshall sample_coercion (JStr ''now'') ''table'' [Some keyOnly] noRules =
     (Inr [updateObjOf ''table'' (serialized sample_key JUndefined) '''' [] []], [Some keyOnly], noRules)"
proof -
  have pk: "truthy (get_prop (item_key keyOnly) ''pk'')"
    and sk: "truthy (get_prop (item_key keyOnly) ''sk'')"
    by (simp_all add: keyOnly_def sample_key_def obj_get_def)
  have none: "item_set keyOnly = None" "\<not> remove_truthy (item_remove keyOnly)"
    "item_add keyOnly = None" "item_append keyOnly = None"
    by (simp_all add: keyOnly_def)
  have m: "sample_marshall (item_key keyOnly) JUndefined = Inr (serialized sample_key JUndefined)"
    by (simp add: sample_marshall_def keyOnly_def sample_key_def)
  have cfg: "validateConfig noRules = Inr ()" "\<not> truthy (autoTimestamp noRules)"
    "\<not> truthy (autoVersion noRules)"
    by (simp_all add: validateConfig_def noRules_def policy_def)
  from request_without_buckets_compiles
         [OF pk sk none, of sample_coercion noRules sample_marshall "''table''" "JStr ''now''"]
       pk sk m cfg
  show ?thesis by simp
qed

end
